theory Spec2Isabelle
  imports Main
begin

section \<open>Values and strings\<close>

text \<open>
  The agent (\<^verbatim>\<open>agent_fun.py\<close>) handles Python values that come out of \<^verbatim>\<open>json.loads\<close>:
  \<^verbatim>\<open>None\<close>, \<^verbatim>\<open>bool\<close>, \<^verbatim>\<open>int\<close>, \<^verbatim>\<open>float\<close>, \<^verbatim>\<open>str\<close>, \<^verbatim>\<open>list\<close> and \<^verbatim>\<open>dict\<close>.
  A \<^verbatim>\<open>str\<close> is held as its UTF-8 bytes. A \<^verbatim>\<open>float\<close> is held as the text \<^verbatim>\<open>repr\<close>
  gives for it. A \<^verbatim>\<open>dict\<close> is an association list with distinct keys in insertion order.
\<close>

datatype json =
    JNull
  | JBool bool
  | JInt int
  | JFloat string
  | JStr string
  | JArr "json list"
  | JObj "(string \<times> json) list"

text \<open>\<^verbatim>\<open>d.get(k, default)\<close> on a dict.\<close>

definition dict_get :: "(string \<times> json) list \<Rightarrow> string \<Rightarrow> json \<Rightarrow> json" where
  "dict_get kv k d = (case map_of kv k of Some v \<Rightarrow> v | None \<Rightarrow> d)"

text \<open>\<^verbatim>\<open>type(v).__name__\<close>, as it appears in the messages of \<^verbatim>\<open>AttributeError\<close> and \<^verbatim>\<open>TypeError\<close>.\<close>

fun type_name :: "json \<Rightarrow> string" where
  "type_name JNull = ''NoneType''"
| "type_name (JBool _) = ''bool''"
| "type_name (JInt _) = ''int''"
| "type_name (JFloat _) = ''float''"
| "type_name (JStr _) = ''str''"
| "type_name (JArr _) = ''list''"
| "type_name (JObj _) = ''dict''"

text \<open>Truth value of a Python value in a condition.\<close>

fun truthy :: "json \<Rightarrow> bool" where
  "truthy JNull = False"
| "truthy (JBool b) = b"
| "truthy (JInt i) = (i \<noteq> 0)"
| "truthy (JFloat r) = (r \<noteq> ''0.0'' \<and> r \<noteq> ''-0.0'')"
| "truthy (JStr s) = (s \<noteq> [])"
| "truthy (JArr xs) = (xs \<noteq> [])"
| "truthy (JObj kv) = (kv \<noteq> [])"

text \<open>Lists and dicts cannot be members of a Python \<^verbatim>\<open>set\<close>.\<close>

fun hashable :: "json \<Rightarrow> bool" where
  "hashable (JArr _) = False"
| "hashable (JObj _) = False"
| "hashable _ = True"

text \<open>\<^verbatim>\<open>isinstance(v, dict)\<close>: only a dict has the method \<^verbatim>\<open>get\<close>.\<close>

fun is_dict :: "json \<Rightarrow> bool" where
  "is_dict (JObj kv) = True"
| "is_dict _ = False"

subsection \<open>\<^verbatim>\<open>str.strip()\<close>, \<^verbatim>\<open>str.lower()\<close> and \<^verbatim>\<open>in\<close>\<close>

text \<open>
  \<^verbatim>\<open>str.strip()\<close> removes the characters for which \<^verbatim>\<open>str.isspace()\<close> holds:
  U+0009..U+000D, U+001C..U+0020, U+0085, U+00A0, U+1680, U+2000..U+200A, U+2028, U+2029,
  U+202F, U+205F and U+3000, here in their UTF-8 encoding.
\<close>

definition whitespace :: "string list" where
  "whitespace =
     [[CHR 0x09], [CHR 0x0A], [CHR 0x0B], [CHR 0x0C], [CHR 0x0D],
      [CHR 0x1C], [CHR 0x1D], [CHR 0x1E], [CHR 0x1F], [CHR 0x20],
      [CHR 0xC2, CHR 0x85], [CHR 0xC2, CHR 0xA0],
      [CHR 0xE1, CHR 0x9A, CHR 0x80],
      [CHR 0xE2, CHR 0x80, CHR 0x80], [CHR 0xE2, CHR 0x80, CHR 0x81],
      [CHR 0xE2, CHR 0x80, CHR 0x82], [CHR 0xE2, CHR 0x80, CHR 0x83],
      [CHR 0xE2, CHR 0x80, CHR 0x84], [CHR 0xE2, CHR 0x80, CHR 0x85],
      [CHR 0xE2, CHR 0x80, CHR 0x86], [CHR 0xE2, CHR 0x80, CHR 0x87],
      [CHR 0xE2, CHR 0x80, CHR 0x88], [CHR 0xE2, CHR 0x80, CHR 0x89],
      [CHR 0xE2, CHR 0x80, CHR 0x8A], [CHR 0xE2, CHR 0x80, CHR 0xA8],
      [CHR 0xE2, CHR 0x80, CHR 0xA9], [CHR 0xE2, CHR 0x80, CHR 0xAF],
      [CHR 0xE2, CHR 0x81, CHR 0x9F], [CHR 0xE3, CHR 0x80, CHR 0x80]]"

fun starts_with :: "string \<Rightarrow> string \<Rightarrow> bool" where
  "starts_with [] s = True"
| "starts_with (p # ps) [] = False"
| "starts_with (p # ps) (c # cs) = (p = c \<and> starts_with ps cs)"

text \<open>
  Dropping leading whitespace: as long as one of the sequences \<open>ws\<close> starts the string it
  is cut off. The fuel is the length of the string, which no run exceeds since every
  sequence has at least one byte.
\<close>

fun drop_leading :: "string list \<Rightarrow> nat \<Rightarrow> string \<Rightarrow> string" where
  "drop_leading ws 0 s = s"
| "drop_leading ws (Suc n) s =
     (case find (\<lambda>w. w \<noteq> [] \<and> starts_with w s) ws of
        None \<Rightarrow> s
      | Some w \<Rightarrow> drop_leading ws n (drop (length w) s))"

definition lstrip :: "string \<Rightarrow> string" where
  "lstrip s = drop_leading whitespace (length s) s"

definition rstrip :: "string \<Rightarrow> string" where
  "rstrip s = rev (drop_leading (map rev whitespace) (length s) (rev s))"

definition strip :: "string \<Rightarrow> string" where
  "strip s = rstrip (lstrip s)"

text \<open>
  \<^verbatim>\<open>str.lower()\<close> on the ASCII letters. The agent only compares the lowered input with the
  ASCII words \<^verbatim>\<open>exit\<close>, \<^verbatim>\<open>quit\<close> and \<^verbatim>\<open>trivia\<close>; outside ASCII, Python's lowering yields
  one ASCII letter only for U+0130 (an \<^verbatim>\<open>i\<close> followed by U+0307) and U+212A (a \<^verbatim>\<open>k\<close>),
  and neither completes one of these words.
\<close>

definition lower_char :: "char \<Rightarrow> char" where
  "lower_char c =
     (let n = (of_char c :: nat) in if 65 \<le> n \<and> n \<le> 90 then char_of (n + 32) else c)"

definition lower :: "string \<Rightarrow> string" where
  "lower s = map lower_char s"

text \<open>\<^verbatim>\<open>sub in s\<close> for strings.\<close>

fun contains :: "string \<Rightarrow> string \<Rightarrow> bool" where
  "contains sub [] = (sub = [])"
| "contains sub (c # cs) = (starts_with sub (c # cs) \<or> contains sub cs)"

text \<open>The apostrophe, which a string literal cannot begin or end with.\<close>

abbreviation apos :: string where
  "apos \<equiv> [CHR 0x27]"

text \<open>\<^verbatim>\<open>str(i)\<close> for an \<^verbatim>\<open>int\<close>.\<close>

fun show_nat :: "nat \<Rightarrow> string" where
  "show_nat n =
     (if n < 10 then [''0123456789'' ! n]
      else show_nat (n div 10) @ [''0123456789'' ! (n mod 10)])"

declare show_nat.simps [simp del]

definition show_int :: "int \<Rightarrow> string" where
  "show_int i = (if i < 0 then ''-'' @ show_nat (nat (- i)) else show_nat (nat i))"

section \<open>Exceptions, the environment and the session state\<close>

text \<open>
  The exceptions the agent can meet, each with the data its message is made of.
  \<open>Failure\<close> is an exception raised by the outside world (the model client, the
  transport, the Tool Host), given by its message. \<open>ValueError\<close> is a \<^verbatim>\<open>ValueError\<close> that
  is not a \<^verbatim>\<open>JSONDecodeError\<close> (\<^verbatim>\<open>json.loads\<close> raises one for an integer with too many
  digits), and \<open>RecursionError\<close> is what \<^verbatim>\<open>json.loads\<close> raises for a text nested too
  deeply. All of them are subclasses of \<^verbatim>\<open>Exception\<close>.
\<close>

datatype exn =
    Failure string
  | JSONDecodeError string
  | ValueError string
  | RecursionError string
  | AttributeError string string
  | TypeError string
  | EOFError

fun exn_str :: "exn \<Rightarrow> string" where
  "exn_str (Failure m) = m"
| "exn_str (JSONDecodeError m) = m"
| "exn_str (ValueError m) = m"
| "exn_str (RecursionError m) = m"
| "exn_str (AttributeError t a) = apos @ t @ apos @ '' object has no attribute '' @ apos @ a @ apos"
| "exn_str (TypeError m) = m"
| "exn_str EOFError = []"

datatype role = System | User | Assistant

type_synonym message = "role \<times> string"

text \<open>
  What \<^verbatim>\<open>session.call_tool\<close> returns, as far as the agent reads it. \<open>Text t\<close>: the content
  is not empty and its first item has the \<^verbatim>\<open>text\<close> \<open>t\<close>. \<open>NoText d\<close>: it is empty or its
  first item has no \<^verbatim>\<open>text\<close>, and \<open>d\<close> is
  \<^verbatim>\<open>json.dumps(result.model_dump(), ensure_ascii=False)\<close>.
\<close>

datatype call_result = Text string | NoText string

text \<open>
  Everything the agent calls and does not define. \<open>chat\<close> is the model: at the \<open>n\<close>-th
  consultation with the given messages it either fails or yields
  \<^verbatim>\<open>resp["message"]["content"]\<close>. \<open>call_tool\<close> is the Tool Host: the \<open>n\<close>-th invocation,
  of the named tool with the given arguments, either raises or returns a result.
  \<open>json_loads\<close> is \<^verbatim>\<open>json.loads\<close>, which returns the parsed value or raises: a
  \<^verbatim>\<open>JSONDecodeError\<close> for a text that is not JSON, and also a \<^verbatim>\<open>RecursionError\<close> or a
  \<^verbatim>\<open>ValueError\<close>. \<open>json_dumps\<close> is \<^verbatim>\<open>json.dumps\<close>; \<open>container_repr\<close> is \<^verbatim>\<open>str\<close> of a list
  or dict.
\<close>

record env =
  chat :: "nat \<Rightarrow> message list \<Rightarrow> exn + string"
  call_tool :: "nat \<Rightarrow> string \<Rightarrow> json \<Rightarrow> exn + call_result"
  json_loads :: "string \<Rightarrow> exn + json"
  json_dumps :: "json \<Rightarrow> string"
  container_repr :: "json \<Rightarrow> string"

text \<open>
  The state of a session: the tool names fetched once at its start, the conversation
  history, and a log of what went out: the number of model consultations and the tool
  invocations sent to the Tool Host. Console output is not part of the state, and
  \<^verbatim>\<open>print\<close> is taken to succeed.
\<close>

record state =
  tool_index :: "string list"
  history :: "message list"
  llm_calls :: nat
  tool_calls :: "(string \<times> json) list"

definition append_history :: "role \<Rightarrow> string \<Rightarrow> state \<Rightarrow> state" where
  "append_history r c st = st\<lparr>history := history st @ [(r, c)]\<rparr>"

text \<open>\<^verbatim>\<open>str(v)\<close>, which is also what an f-string puts for \<^verbatim>\<open>{v}\<close>.\<close>

definition py_str :: "env \<Rightarrow> json \<Rightarrow> string" where
  "py_str E v =
     (case v of
        JStr s \<Rightarrow> s
      | JNull \<Rightarrow> ''None''
      | JBool b \<Rightarrow> (if b then ''True'' else ''False'')
      | JInt i \<Rightarrow> show_int i
      | JFloat r \<Rightarrow> r
      | JArr xs \<Rightarrow> container_repr E v
      | JObj kv \<Rightarrow> container_repr E v)"

section \<open>The agent\<close>

subsection \<open>\<^verbatim>\<open>llm_json\<close>\<close>

definition final_decision :: "string \<Rightarrow> json" where
  "final_decision answer = JObj [(''action'', JStr ''final''), (''answer'', JStr answer)]"

text \<open>
  The first \<^verbatim>\<open>try\<close> catches every \<^verbatim>\<open>Exception\<close>; the second catches
  \<^verbatim>\<open>json.JSONDecodeError\<close> only, so any other exception of \<^verbatim>\<open>json.loads\<close> leaves
  \<^verbatim>\<open>llm_json\<close> (\<open>Inl\<close>).
\<close>

definition llm_json :: "env \<Rightarrow> state \<Rightarrow> (exn + json) \<times> state" where
  "llm_json E st =
     (let st' = st\<lparr>llm_calls := Suc (llm_calls st)\<rparr> in
      case chat E (llm_calls st) (history st) of
        Inl e \<Rightarrow>
          (Inr (final_decision (''Sorry, I had trouble reaching my brain: '' @ exn_str e)), st')
      | Inr content \<Rightarrow>
          (let txt = strip content in
           case json_loads E txt of
             Inr v \<Rightarrow> (Inr v, st')
           | Inl e \<Rightarrow>
               (case e of
                  JSONDecodeError m \<Rightarrow> (Inr (final_decision txt), st')
                | _ \<Rightarrow> (Inl e, st'))))"

subsection \<open>\<^verbatim>\<open>to_plain_text\<close>\<close>

definition to_plain_text :: "env \<Rightarrow> json \<Rightarrow> string" where
  "to_plain_text E answer =
     (case answer of
        JStr s \<Rightarrow> strip s
      | _ \<Rightarrow> strip (py_str E answer))"

subsection \<open>\<^verbatim>\<open>summarize_tool_result\<close>\<close>

text \<open>
  \<^verbatim>\<open>data.get\<close> of the weather, book, joke and trivia branches raises \<^verbatim>\<open>AttributeError\<close> when
  the payload is JSON but not an object; the dog branch and the generic branch do not
  read \<open>data\<close> that way. An exception of \<^verbatim>\<open>json.loads\<close> other than \<^verbatim>\<open>JSONDecodeError\<close> is
  not caught. The degree sign and the dog face are written as UTF-8 bytes.
\<close>

definition dog_summary :: string where
  "dog_summary =
     ''I fetched a cute dog picture for you! '' @ [CHR 0xF0, CHR 0x9F, CHR 0x90, CHR 0xB6]"

definition summarize_tool_result :: "env \<Rightarrow> string \<Rightarrow> string \<Rightarrow> exn + string" where
  "summarize_tool_result E tool_name payload =
     (case json_loads E payload of
        Inl e \<Rightarrow>
          (case e of
             JSONDecodeError m \<Rightarrow>
               Inr (''The '' @ apos @ tool_name @ apos @ '' tool returned: '' @ payload)
           | _ \<Rightarrow> Inl e)
      | Inr data \<Rightarrow>
          if tool_name = ''weather'' then
            (case data of
               JObj kv \<Rightarrow>
                 (let desc = dict_get kv ''description'' (JStr ''unknown conditions'');
                      temp = dict_get kv ''temperature'' (JStr ''??'')
                  in Inr (''The current weather is '' @ py_str E desc
                          @ '' with a temperature of '' @ py_str E temp
                          @ [CHR 0xC2, CHR 0xB0] @ ''C.''))
             | _ \<Rightarrow> Inl (AttributeError (type_name data) ''get''))
          else if tool_name = ''book'' then
            (case data of
               JObj kv \<Rightarrow>
                 (let title = dict_get kv ''title'' (JStr ''a great book'');
                      author = dict_get kv ''author'' (JStr ''an author'')
                  in Inr (''I found a book: '' @ apos @ py_str E title @ apos
                          @ '' by '' @ py_str E author @ ''.''))
             | _ \<Rightarrow> Inl (AttributeError (type_name data) ''get''))
          else if tool_name = ''joke'' then
            (case data of
               JObj kv \<Rightarrow>
                 (let joke_text = dict_get kv ''joke''
                        (JStr ''Why don't skeletons fight each other? They don't have the guts!'')
                  in Inr (''Here's a joke: '' @ py_str E joke_text))
             | _ \<Rightarrow> Inl (AttributeError (type_name data) ''get''))
          else if tool_name = ''dog'' then Inr dog_summary
          else if tool_name = ''trivia'' then
            (case data of
               JObj kv \<Rightarrow>
                 (let question = dict_get kv ''question'' (JStr ''What is the meaning of life?'')
                  in Inr (''Trivia question: '' @ py_str E question))
             | _ \<Rightarrow> Inl (AttributeError (type_name data) ''get''))
          else Inr (''Tool '' @ apos @ tool_name @ apos @ '' returned: '' @ json_dumps E data))"

subsection \<open>The general decision loop of \<^verbatim>\<open>main\<close>\<close>

text \<open>
  One pass through the body of \<^verbatim>\<open>for step in range(8)\<close>. It ends with \<^verbatim>\<open>break\<close> (after
  \<^verbatim>\<open>responded = True\<close>), with the next iteration (\<^verbatim>\<open>continue\<close> or the end of the body), or
  with an exception that nothing in \<^verbatim>\<open>main\<close> catches.
\<close>

datatype flow = Break | Continue | Raise exn

definition could_not_finish :: string where
  "could_not_finish =
     ''I tried several steps but couldn't finish your request. Could you rephrase?''"

definition loop_body :: "env \<Rightarrow> state \<Rightarrow> flow \<times> state" where
  "loop_body E st =
     (case llm_json E st of
        (Inl e, st1) \<Rightarrow> (Raise e, st1)
      | (Inr decision, st1) \<Rightarrow>
        (case decision of
           JObj kv \<Rightarrow>
             if map_of kv ''action'' = Some (JStr ''final'') then
               (let plain = to_plain_text E (dict_get kv ''answer'' (JStr []))
                in (Break, append_history Assistant plain st1))
             else
               (let tname = strip (py_str E (dict_get kv ''action'' (JStr [])));
                    args = dict_get kv ''args'' (JObj [])
                in if tname = [] \<or> tname \<notin> set (tool_index st1) then
                     (Break, append_history Assistant (''Unknown tool: '' @ tname) st1)
                   else
                     (let st2 = st1\<lparr>tool_calls := tool_calls st1 @ [(tname, args)]\<rparr> in
                      case call_tool E (length (tool_calls st1)) tname args of
                        Inl e \<Rightarrow>
                          (let error_msg = ''Tool '' @ apos @ tname @ apos @ '' failed: '' @ exn_str e
                           in (Continue, append_history User (''[Tool Error] '' @ error_msg) st2))
                      | Inr result \<Rightarrow>
                          (let payload = (case result of
                                            Text t \<Rightarrow> t
                                          | NoText d \<Rightarrow> d)
                           in case summarize_tool_result E tname payload of
                                Inl e \<Rightarrow> (Raise e, st2)
                              | Inr summary \<Rightarrow>
                                  (Continue,
                                   append_history User (''[Tool Result] '' @ summary) st2))))
         | _ \<Rightarrow> (Raise (AttributeError (type_name decision) ''get''), st1)))"

text \<open>
  The \<^verbatim>\<open>for\<close> loop with \<open>n\<close> iterations left. Its result is the exception that left it, or
  the flag \<^verbatim>\<open>responded\<close>.
\<close>

fun agent_loop :: "env \<Rightarrow> nat \<Rightarrow> state \<Rightarrow> (exn + bool) \<times> state" where
  "agent_loop E 0 st = (Inr False, st)"
| "agent_loop E (Suc n) st =
     (case loop_body E st of
        (Break, st1) \<Rightarrow> (Inr True, st1)
      | (Continue, st1) \<Rightarrow> agent_loop E n st1
      | (Raise e, st1) \<Rightarrow> (Inl e, st1))"

text \<open>
  A user turn of the general loop, from \<^verbatim>\<open>responded = False\<close> to the end of the body of
  \<^verbatim>\<open>while True\<close>. \<open>Some e\<close>: the exception \<open>e\<close> leaves \<^verbatim>\<open>main\<close>.
\<close>

definition general_turn :: "env \<Rightarrow> state \<Rightarrow> exn option \<times> state" where
  "general_turn E st =
     (case agent_loop E 8 st of
        (Inl e, st1) \<Rightarrow> (Some e, st1)
      | (Inr responded, st1) \<Rightarrow>
          if \<not> responded then (None, append_history Assistant could_not_finish st1)
          else (None, st1))"

text \<open>
  A pass whose decision is a tool call that the loop carries out: the decision is a
  mapping, its action is not \<^verbatim>\<open>final\<close> and names a known tool, and the call either fails
  or returns a payload that \<^verbatim>\<open>summarize_tool_result\<close> summarizes without an exception.
  \<open>tool_call_passes E n st\<close>: the next \<open>n\<close> passes from \<open>st\<close> are all of this kind.
\<close>

definition tool_call_pass :: "env \<Rightarrow> state \<Rightarrow> bool" where
  "tool_call_pass E st =
     (case fst (llm_json E st) of
        Inr (JObj kv) \<Rightarrow>
          map_of kv ''action'' \<noteq> Some (JStr ''final'') \<and>
          (let tname = strip (py_str E (dict_get kv ''action'' (JStr [])));
               args = dict_get kv ''args'' (JObj [])
           in tname \<noteq> [] \<and> tname \<in> set (tool_index st) \<and>
              (case call_tool E (length (tool_calls st)) tname args of
                 Inl e \<Rightarrow> True
               | Inr result \<Rightarrow>
                   (case summarize_tool_result E tname
                           (case result of Text t \<Rightarrow> t | NoText d \<Rightarrow> d) of
                      Inl e \<Rightarrow> False
                    | Inr summary \<Rightarrow> True)))
      | _ \<Rightarrow> False)"

fun tool_call_passes :: "env \<Rightarrow> nat \<Rightarrow> state \<Rightarrow> bool" where
  "tool_call_passes E 0 st = True"
| "tool_call_passes E (Suc n) st =
     (tool_call_pass E st \<and> tool_call_passes E n (snd (loop_body E st)))"

subsection \<open>The inline trivia handling of \<^verbatim>\<open>main\<close>\<close>

text \<open>
  The listing of the choices, which only prints: what matters here is the exception it may
  raise. \<^verbatim>\<open>choices.append\<close> needs a list; \<^verbatim>\<open>set(choices)\<close> needs an iterable (a list, a
  str or a dict) whose items are hashable. The messages of the \<^verbatim>\<open>TypeError\<close> are those of
  CPython up to 3.13.
\<close>

definition trivia_choices :: "(string \<times> json) list \<Rightarrow> exn + json" where
  "trivia_choices kv =
     (let choices = dict_get kv ''incorrect_answers'' (JArr []) in
      if truthy (dict_get kv ''correct_answer'' JNull) then
        (case choices of
           JArr xs \<Rightarrow> Inr (JArr (xs @ [dict_get kv ''correct_answer'' JNull]))
         | _ \<Rightarrow> Inl (AttributeError (type_name choices) ''append''))
      else Inr choices)"

definition set_of_choices :: "json \<Rightarrow> exn option" where
  "set_of_choices choices =
     (case choices of
        JArr xs \<Rightarrow>
          (case find (\<lambda>x. \<not> hashable x) xs of
             None \<Rightarrow> None
           | Some x \<Rightarrow> Some (TypeError (''unhashable type: '' @ apos @ type_name x @ apos)))
      | JStr s \<Rightarrow> None
      | JObj kv' \<Rightarrow> None
      | _ \<Rightarrow> Some (TypeError (apos @ type_name choices @ apos @ '' object is not iterable'')))"

text \<open>
  The body of the \<^verbatim>\<open>try\<close>, up to the summary. \<open>Inl e\<close>: it raised \<open>e\<close>. The call is logged
  whether or not it returns.
\<close>

definition trivia_try :: "env \<Rightarrow> state \<Rightarrow> (exn + string) \<times> state" where
  "trivia_try E st =
     (let st1 = st\<lparr>tool_calls := tool_calls st @ [(''trivia'', JObj [])]\<rparr> in
      case call_tool E (length (tool_calls st)) ''trivia'' (JObj []) of
        Inl e \<Rightarrow> (Inl e, st1)
      | Inr result \<Rightarrow>
          (let payload = (case result of Text t \<Rightarrow> t | NoText d \<Rightarrow> ''{}'') in
           case json_loads E payload of
             Inl e \<Rightarrow> (Inl e, st1)
           | Inr data \<Rightarrow>
               (case data of
                  JObj kv \<Rightarrow>
                    (case trivia_choices kv of
                       Inl e \<Rightarrow> (Inl e, st1)
                     | Inr choices \<Rightarrow>
                         (case set_of_choices choices of
                            Some e \<Rightarrow> (Inl e, st1)
                          | None \<Rightarrow> (summarize_tool_result E ''trivia'' payload, st1)))
                | _ \<Rightarrow> (Inl (AttributeError (type_name data) ''get''), st1))))"

definition trivia_turn :: "env \<Rightarrow> state \<Rightarrow> exn option \<times> state" where
  "trivia_turn E st =
     (case trivia_try E st of
        (Inr summary, st1) \<Rightarrow> (None, append_history User (''[Tool Result] '' @ summary) st1)
      | (Inl e, st1) \<Rightarrow>
          (None, append_history Assistant (''Oops! Trivia failed: '' @ exn_str e) st1))"

subsection \<open>The session: the \<^verbatim>\<open>while True\<close> loop of \<^verbatim>\<open>main\<close>\<close>

text \<open>One user turn, from \<^verbatim>\<open>history.append\<close> of the input to the end of the loop body.\<close>

definition turn :: "env \<Rightarrow> state \<Rightarrow> string \<Rightarrow> exn option \<times> state" where
  "turn E st user_input =
     (let st1 = append_history User user_input st in
      if contains ''trivia'' (lower user_input) then trivia_turn E st1
      else general_turn E st1)"

text \<open>
  The session reads the lines that \<^verbatim>\<open>input\<close> returns, one per turn. It ends at an empty
  line or at \<^verbatim>\<open>exit\<close>/\<^verbatim>\<open>quit\<close> (\<open>None\<close>), or with an exception that leaves \<^verbatim>\<open>main\<close>; at the end
  of the input \<^verbatim>\<open>input\<close> raises \<^verbatim>\<open>EOFError\<close>.
\<close>

fun session :: "env \<Rightarrow> state \<Rightarrow> string list \<Rightarrow> exn option \<times> state" where
  "session E st [] = (Some EOFError, st)"
| "session E st (line # rest) =
     (let user_input = strip line in
      if user_input = [] \<or> lower user_input \<in> {''exit'', ''quit''} then (None, st)
      else
        (case turn E st user_input of
           (None, st1) \<Rightarrow> session E st1 rest
         | (Some e, st1) \<Rightarrow> (Some e, st1)))"

section \<open>A reference environment for the examples\<close>

text \<open>
  The examples below run the agent against concrete stand-ins for the library functions:
  a decoder and an encoder for JSON and Python's \<^verbatim>\<open>repr\<close>. \<open>json_decode\<close> agrees with
  \<^verbatim>\<open>json.loads\<close> on texts without \<^verbatim>\<open>\u\<close> escapes and without numbers that have a fraction
  or an exponent (it rejects those, as it rejects \<^verbatim>\<open>NaN\<close> and \<^verbatim>\<open>Infinity\<close>), nested less
  deeply than the recursion limit and with integers of at most 4300 digits; \<open>json_encode\<close>
  and \<open>py_repr\<close> agree with \<^verbatim>\<open>json.dumps\<close> and \<^verbatim>\<open>repr\<close> on values whose strings are
  printable ASCII and whose floats are finite. The theorems about the agent do not depend
  on them: they hold for every environment.
\<close>

text \<open>\<^verbatim>\<open>d[k] = v\<close>: a key that is already there keeps its place.\<close>

definition dict_set :: "string \<Rightarrow> json \<Rightarrow> (string \<times> json) list \<Rightarrow> (string \<times> json) list" where
  "dict_set k v kv =
     (if k \<in> fst ` set kv then map (\<lambda>p. if fst p = k then (k, v) else p) kv
      else kv @ [(k, v)])"

subsection \<open>\<^verbatim>\<open>json.loads\<close>\<close>

definition skip_ws :: "string \<Rightarrow> string" where
  "skip_ws cs = dropWhile (\<lambda>c. c \<in> {CHR 0x20, CHR 0x09, CHR 0x0A, CHR 0x0D}) cs"

fun decode_string :: "string \<Rightarrow> string \<Rightarrow> (string \<times> string) option" where
  "decode_string acc [] = None"
| "decode_string acc (c # cs) =
     (if c = CHR 0x22 then Some (acc, cs)
      else if c = CHR 0x5C then
        (case cs of
           [] \<Rightarrow> None
         | e # cs' \<Rightarrow>
             (case map_of [(CHR 0x22, CHR 0x22), (CHR 0x5C, CHR 0x5C), (CHR ''/'', CHR ''/''),
                           (CHR ''b'', CHR 0x08), (CHR ''f'', CHR 0x0C), (CHR ''n'', CHR 0x0A),
                           (CHR ''r'', CHR 0x0D), (CHR ''t'', CHR 0x09)] e of
                None \<Rightarrow> None
              | Some x \<Rightarrow> decode_string (acc @ [x]) cs'))
      else if (of_char c :: nat) < 32 then None
      else decode_string (acc @ [c]) cs)"

definition is_digit :: "char \<Rightarrow> bool" where
  "is_digit c = (48 \<le> (of_char c :: nat) \<and> (of_char c :: nat) \<le> 57)"

definition digits_value :: "string \<Rightarrow> nat" where
  "digits_value ds = foldl (\<lambda>n c. 10 * n + (of_char c - 48)) 0 ds"

definition decode_number :: "string \<Rightarrow> (json \<times> string) option" where
  "decode_number cs =
     (let neg = starts_with ''-'' cs;
          body = (if neg then tl cs else cs);
          ds = (if starts_with ''0'' body then ''0'' else takeWhile is_digit body);
          rest = drop (length ds) body
      in if ds = [] \<or> starts_with ''.'' rest \<or> starts_with ''e'' rest \<or> starts_with ''E'' rest
         then None
         else Some (JInt (if neg then - int (digits_value ds) else int (digits_value ds)), rest))"

fun decode_value :: "nat \<Rightarrow> string \<Rightarrow> (json \<times> string) option"
  and decode_items :: "nat \<Rightarrow> json list \<Rightarrow> string \<Rightarrow> (json \<times> string) option"
  and decode_members :: "nat \<Rightarrow> (string \<times> json) list \<Rightarrow> string \<Rightarrow> (json \<times> string) option"
where
  "decode_value 0 cs = None"
| "decode_value (Suc n) cs =
     (let s = skip_ws cs in
      if starts_with ''null'' s then Some (JNull, drop 4 s)
      else if starts_with ''true'' s then Some (JBool True, drop 4 s)
      else if starts_with ''false'' s then Some (JBool False, drop 5 s)
      else if starts_with [CHR 0x22] s then
        (case decode_string [] (tl s) of None \<Rightarrow> None | Some (x, r) \<Rightarrow> Some (JStr x, r))
      else if starts_with ''['' s then
        (if starts_with '']'' (skip_ws (tl s)) then Some (JArr [], tl (skip_ws (tl s)))
         else decode_items n [] (tl s))
      else if starts_with ''{'' s then
        (if starts_with ''}'' (skip_ws (tl s)) then Some (JObj [], tl (skip_ws (tl s)))
         else decode_members n [] (tl s))
      else decode_number s)"
| "decode_items 0 acc cs = None"
| "decode_items (Suc n) acc cs =
     (case decode_value n cs of
        None \<Rightarrow> None
      | Some (v, r) \<Rightarrow>
          (let s = skip_ws r in
           if starts_with '','' s then decode_items n (acc @ [v]) (tl s)
           else if starts_with '']'' s then Some (JArr (acc @ [v]), tl s)
           else None))"
| "decode_members 0 acc cs = None"
| "decode_members (Suc n) acc cs =
     (let s = skip_ws cs in
      if starts_with [CHR 0x22] s then
        (case decode_string [] (tl s) of
           None \<Rightarrow> None
         | Some (k, r) \<Rightarrow>
             (let s1 = skip_ws r in
              if starts_with '':'' s1 then
                (case decode_value n (tl s1) of
                   None \<Rightarrow> None
                 | Some (v, r') \<Rightarrow>
                     (let s2 = skip_ws r' in
                      if starts_with '','' s2 then decode_members n (dict_set k v acc) (tl s2)
                      else if starts_with ''}'' s2 then Some (JObj (dict_set k v acc), tl s2)
                      else None))
              else None))
      else None)"

definition json_decode :: "string \<Rightarrow> json option" where
  "json_decode s =
     (case decode_value (2 * length s + 2) s of
        None \<Rightarrow> None
      | Some (v, r) \<Rightarrow> if skip_ws r = [] then Some v else None)"


subsection \<open>\<^verbatim>\<open>json.dumps\<close> and \<^verbatim>\<open>repr\<close>\<close>

definition hex2 :: "nat \<Rightarrow> string" where
  "hex2 n = [''0123456789abcdef'' ! (n div 16), ''0123456789abcdef'' ! (n mod 16)]"

definition encode_char :: "char \<Rightarrow> string" where
  "encode_char c =
     (case map_of [(CHR 0x22, [CHR 0x5C, CHR 0x22]), (CHR 0x5C, [CHR 0x5C, CHR 0x5C]),
                   (CHR 0x0A, [CHR 0x5C, CHR ''n'']), (CHR 0x0D, [CHR 0x5C, CHR ''r'']),
                   (CHR 0x09, [CHR 0x5C, CHR ''t'']), (CHR 0x08, [CHR 0x5C, CHR ''b'']),
                   (CHR 0x0C, [CHR 0x5C, CHR ''f''])] c of
        Some e \<Rightarrow> e
      | None \<Rightarrow> if (of_char c :: nat) < 32 then [CHR 0x5C] @ ''u00'' @ hex2 (of_char c) else [c])"

definition encode_string :: "string \<Rightarrow> string" where
  "encode_string s = [CHR 0x22] @ concat (map encode_char s) @ [CHR 0x22]"

definition join :: "string \<Rightarrow> string list \<Rightarrow> string" where
  "join sep xs = (case xs of [] \<Rightarrow> [] | x # r \<Rightarrow> x @ concat (map (\<lambda>y. sep @ y) r))"

fun json_encode :: "json \<Rightarrow> string" where
  "json_encode JNull = ''null''"
| "json_encode (JBool b) = (if b then ''true'' else ''false'')"
| "json_encode (JInt i) = show_int i"
| "json_encode (JFloat r) = r"
| "json_encode (JStr s) = encode_string s"
| "json_encode (JArr xs) = ''['' @ join '', '' (map json_encode xs) @ '']''"
| "json_encode (JObj kv) =
     ''{'' @ join '', '' (map (\<lambda>p. encode_string (fst p) @ '': '' @ json_encode (snd p)) kv) @ ''}''"


definition repr_char :: "char \<Rightarrow> char \<Rightarrow> string" where
  "repr_char q c =
     (case map_of [(CHR 0x5C, [CHR 0x5C, CHR 0x5C]), (CHR 0x0A, [CHR 0x5C, CHR ''n'']),
                   (CHR 0x0D, [CHR 0x5C, CHR ''r'']), (CHR 0x09, [CHR 0x5C, CHR ''t''])] c of
        Some e \<Rightarrow> e
      | None \<Rightarrow>
          if c = q then [CHR 0x5C, c]
          else if (of_char c :: nat) < 32 \<or> (of_char c :: nat) = 127
          then [CHR 0x5C] @ ''x'' @ hex2 (of_char c)
          else [c])"

definition repr_string :: "string \<Rightarrow> string" where
  "repr_string s =
     (let q = (if CHR 0x27 \<in> set s \<and> CHR 0x22 \<notin> set s then CHR 0x22 else CHR 0x27)
      in [q] @ concat (map (repr_char q) s) @ [q])"

fun py_repr :: "json \<Rightarrow> string" where
  "py_repr JNull = ''None''"
| "py_repr (JBool b) = (if b then ''True'' else ''False'')"
| "py_repr (JInt i) = show_int i"
| "py_repr (JFloat r) = r"
| "py_repr (JStr s) = repr_string s"
| "py_repr (JArr xs) = ''['' @ join '', '' (map py_repr xs) @ '']''"
| "py_repr (JObj kv) =
     ''{'' @ join '', '' (map (\<lambda>p. repr_string (fst p) @ '': '' @ py_repr (snd p)) kv) @ ''}''"

text \<open>
  \<^verbatim>\<open>json.loads\<close> of the reference environment. The message of its \<^verbatim>\<open>JSONDecodeError\<close> is
  the one \<^verbatim>\<open>json.loads\<close> gives for a text that does not begin with a JSON value.
\<close>

definition reference_loads :: "string \<Rightarrow> exn + json" where
  "reference_loads text =
     (case json_decode text of
        None \<Rightarrow> Inl (JSONDecodeError ''Expecting value: line 1 column 1 (char 0)'')
      | Some v \<Rightarrow> Inr v)"

text \<open>The reference environment for a given model and Tool Host.\<close>

definition reference_env ::
  "(nat \<Rightarrow> message list \<Rightarrow> exn + string) \<Rightarrow> (nat \<Rightarrow> string \<Rightarrow> json \<Rightarrow> exn + call_result) \<Rightarrow> env" where
  "reference_env model host =
     \<lparr>chat = model, call_tool = host, json_loads = reference_loads,
      json_dumps = json_encode, container_repr = py_repr\<rparr>"

text \<open>
  Models and Tool Hosts for the examples: a model that always gives the same output, a
  model that reads its outputs from a list (and repeats the last one), a Tool Host whose
  every call returns the same text, and one whose every call fails.
\<close>

definition model_says :: "string \<Rightarrow> nat \<Rightarrow> message list \<Rightarrow> exn + string" where
  "model_says txt n h = Inr txt"

definition model_script :: "string list \<Rightarrow> nat \<Rightarrow> message list \<Rightarrow> exn + string" where
  "model_script txts n h = Inr (if n < length txts then txts ! n else last txts)"

definition host_returns :: "string \<Rightarrow> nat \<Rightarrow> string \<Rightarrow> json \<Rightarrow> exn + call_result" where
  "host_returns txt n name args = Inr (Text txt)"

definition host_fails :: "string \<Rightarrow> nat \<Rightarrow> string \<Rightarrow> json \<Rightarrow> exn + call_result" where
  "host_fails msg n name args = Inl (Failure msg)"

text \<open>A session state right after start-up, with the given tools and history.\<close>

definition start_state :: "string list \<Rightarrow> message list \<Rightarrow> state" where
  "start_state tools h = \<lparr>tool_index = tools, history = h, llm_calls = 0, tool_calls = []\<rparr>"

text \<open>The tool names that \<^verbatim>\<open>server_fun.py\<close> registers.\<close>

definition server_tools :: "string list" where
  "server_tools = [''get_weather'', ''book_recs'', ''random_joke'', ''random_dog'', ''trivia'']"

text \<open>The texts and environments of the examples.\<close>

definition dog_call :: string where
  "dog_call = ''{\"action\":\"random_dog\",\"args\":{}}''"

definition unknown_call :: string where
  "unknown_call = ''{\"action\":\"dog\",\"args\":{}}''"

definition dog_payload :: string where
  "dog_payload =
     ''{\"ok\":true,\"image\":\"https://images.dog.ceo/breeds/pug/n02110958_1.jpg\"}''"

definition trivia_payload :: string where
  "trivia_payload = ''{\"ok\": true, \"question\": \"What is the capital of France?\", \"choices\": [\"Lyon\", \"Nice\", \"Lille\", \"Paris\"], \"answer\": \"Paris\"}''"

definition encoded_payload :: string where
  "encoded_payload = ''{\"question\": \"Who wrote &quot;Hamlet&quot;?\", \"incorrect_answers\": [\"Marlowe\", \"Jonson\", \"Kyd\"], \"correct_answer\": \"Shakespeare\"}''"

definition padded_env :: env where
  "padded_env = reference_env (model_says '' hello '') (host_fails ''connection lost'')"

definition dog_env :: env where
  "dog_env = reference_env (model_says dog_call) (host_returns dog_payload)"

definition unknown_env :: env where
  "unknown_env = reference_env (model_says unknown_call) (host_returns dog_payload)"

definition failing_env :: env where
  "failing_env = reference_env (model_says dog_call) (host_fails ''connection lost'')"

definition number_env :: env where
  "number_env = reference_env (model_says ''5'') (host_returns dog_payload)"

definition trivia_env :: env where
  "trivia_env = reference_env (model_says dog_call) (host_returns trivia_payload)"

definition late_unknown_env :: env where
  "late_unknown_env =
     reference_env (model_script (replicate 7 dog_call @ [unknown_call])) (host_returns dog_payload)"

definition raw_text_env :: env where
  "raw_text_env = reference_env (model_says dog_call) (host_returns ''Q: What is 2+2?'')"

definition dog_state :: state where
  "dog_state = start_state server_tools [(User, ''show me a dog'')]"

section \<open>Facts about the state\<close>

lemma append_history_simps [simp]:
  "llm_calls (append_history r c st) = llm_calls st"
  "tool_calls (append_history r c st) = tool_calls st"
  "tool_index (append_history r c st) = tool_index st"
  "history (append_history r c st) = history st @ [(r, c)]"
  by (simp_all add: append_history_def)

lemma llm_json_state: "snd (llm_json E st) = st\<lparr>llm_calls := Suc (llm_calls st)\<rparr>"
  by (simp add: llm_json_def Let_def split: sum.splits exn.splits)

lemma llm_json_eq:
  "llm_json E st = (fst (llm_json E st), st\<lparr>llm_calls := Suc (llm_calls st)\<rparr>)"
  by (metis llm_json_state prod.collapse)

text \<open>
  An exception of \<^verbatim>\<open>json.loads\<close> that is not a \<^verbatim>\<open>JSONDecodeError\<close> leaves \<^verbatim>\<open>llm_json\<close>.
\<close>

lemma llm_json_other_exception:
  assumes "chat E (llm_calls st) (history st) = Inr raw"
    and "json_loads E (strip raw) = Inl e"
    and "\<forall>m. e \<noteq> JSONDecodeError m"
  shows "fst (llm_json E st) = Inl e"
  using assms by (cases e) (simp_all add: llm_json_def)

text \<open>Every pass through the loop body consults the model once.\<close>

lemma loop_body_calls: "llm_calls (snd (loop_body E st)) = Suc (llm_calls st)"
proof -
  obtain d where d: "llm_json E st = (d, st\<lparr>llm_calls := Suc (llm_calls st)\<rparr>)"
    using llm_json_eq by blast
  show ?thesis
    by (simp add: loop_body_def d Let_def split: json.splits sum.splits call_result.splits)
qed

text \<open>
  A pass goes on to the next iteration exactly when its decision is a tool call that the
  loop carries out.
\<close>

lemma loop_body_Continue_iff: "fst (loop_body E st) = Continue \<longleftrightarrow> tool_call_pass E st"
proof -
  obtain d where d: "llm_json E st = (d, st\<lparr>llm_calls := Suc (llm_calls st)\<rparr>)"
    using llm_json_eq by blast
  show ?thesis
  proof (cases d)
    case (Inl e)
    then show ?thesis by (simp add: loop_body_def tool_call_pass_def d)
  next
    case (Inr v)
    then show ?thesis
      by (cases v)
        (auto simp add: loop_body_def tool_call_pass_def d Let_def
          split: sum.splits call_result.splits)
  qed
qed

text \<open>The loop leaves \<^verbatim>\<open>responded\<close> false exactly when every one of its passes goes on.\<close>

lemma agent_loop_exhausted_iff:
  "fst (agent_loop E (Suc n) st) = Inr False \<longleftrightarrow>
     fst (loop_body E st) = Continue \<and> fst (agent_loop E n (snd (loop_body E st))) = Inr False"
  by (cases "loop_body E st") (auto split: flow.splits)

lemma tool_call_passes_iff:
  "tool_call_passes E n st \<longleftrightarrow> fst (agent_loop E n st) = Inr False"
proof (induction n arbitrary: st)
  case 0
  then show ?case by simp
next
  case (Suc n)
  show ?case
    unfolding agent_loop_exhausted_iff
    by (simp add: Suc.IH loop_body_Continue_iff)
qed

lemma agent_loop_Raise:
  "fst (loop_body E st) = Raise e \<Longrightarrow> 0 < n \<Longrightarrow> agent_loop E n st = (Inl e, snd (loop_body E st))"
  by (cases n; cases "loop_body E st") simp_all

lemma agent_loop_calls: "llm_calls (snd (agent_loop E n st)) \<le> llm_calls st + n"
proof (induction n arbitrary: st)
  case 0
  then show ?case by simp
next
  case (Suc n)
  obtain f st1 where b: "loop_body E st = (f, st1)" by (cases "loop_body E st")
  have c: "llm_calls st1 = Suc (llm_calls st)" using loop_body_calls [of E st] b by simp
  show ?case
  proof (cases f)
    case Continue
    then show ?thesis using Suc.IH [of st1] b c by simp
  qed (use b c in simp_all)
qed

lemma agent_loop_exhausted_calls:
  "fst (agent_loop E n st) = Inr False \<Longrightarrow> llm_calls (snd (agent_loop E n st)) = llm_calls st + n"
proof (induction n arbitrary: st)
  case 0
  then show ?case by simp
next
  case (Suc n)
  obtain f st1 where b: "loop_body E st = (f, st1)" by (cases "loop_body E st")
  have c: "llm_calls st1 = Suc (llm_calls st)" using loop_body_calls [of E st] b by simp
  show ?case
  proof (cases f)
    case Continue
    then show ?thesis using Suc.IH [of st1] Suc.prems b c by simp
  qed (use b Suc.prems in simp_all)
qed

lemma trivia_try_state:
  "snd (trivia_try E st) = st\<lparr>tool_calls := tool_calls st @ [(''trivia'', JObj [])]\<rparr>"
  by (simp add: trivia_try_def Let_def split: sum.splits option.splits json.splits call_result.splits)

lemma trivia_turn_calls: "llm_calls (snd (trivia_turn E st)) = llm_calls st"
proof -
  obtain r where t: "trivia_try E st = (r, st\<lparr>tool_calls := tool_calls st @ [(''trivia'', JObj [])]\<rparr>)"
    using trivia_try_state [of E st] by (metis prod.collapse)
  show ?thesis by (simp add: trivia_turn_def t split: sum.splits)
qed

text \<open>
  The body of the \<^verbatim>\<open>try\<close> of the trivia handling completes when the call returns, the
  payload is a JSON object and the listing of its choices raises nothing.
\<close>

lemma trivia_try_success:
  assumes "call_tool E (length (tool_calls st)) ''trivia'' (JObj []) = Inr result"
    and "json_loads E (case result of Text t \<Rightarrow> t | NoText d \<Rightarrow> ''{}'') = Inr (JObj kv)"
    and "trivia_choices kv = Inr choices"
    and "set_of_choices choices = None"
  shows "trivia_try E st =
     (Inr (''Trivia question: '' @ py_str E (dict_get kv ''question'' (JStr ''What is the meaning of life?''))),
      st\<lparr>tool_calls := tool_calls st @ [(''trivia'', JObj [])]\<rparr>)"
  using assms by (simp add: trivia_try_def summarize_tool_result_def Let_def)

section \<open>Facts about the examples\<close>

lemma decode_hello_raw: "json_decode '' hello '' = None"
  by code_simp

lemma loads_hello:
  "reference_loads (strip '' hello '')
     = Inl (JSONDecodeError ''Expecting value: line 1 column 1 (char 0)'')"
  by code_simp

lemma strip_hello: "strip '' hello '' = ''hello''"
  by code_simp

lemma loads_five: "reference_loads (strip ''5'') = Inr (JInt 5)"
  by code_simp

lemma unknown_decision:
  "fst (llm_json unknown_env dog_state)
     = Inr (JObj [(''action'', JStr ''dog''), (''args'', JObj [])])"
  by code_simp

lemma dog_decision:
  "fst (llm_json failing_env dog_state)
     = Inr (JObj [(''action'', JStr ''random_dog''), (''args'', JObj [])])"
  by code_simp

lemma strip_names: "strip ''dog'' = ''dog''" "strip ''random_dog'' = ''random_dog''"
  by code_simp+

lemma strip_exit: "lower (strip ''  EXIT '') = ''exit''"
  by code_simp

lemma dog_loop_exhausted: "fst (agent_loop dog_env 8 dog_state) = Inr False"
  by code_simp

lemma contains_example: "contains ''trivia'' (lower ''Give me a TRIVIA question'')"
  by code_simp

lemma loads_trivia_payload:
  "reference_loads trivia_payload =
     Inr (JObj [(''ok'', JBool True), (''question'', JStr ''What is the capital of France?''),
                (''choices'', JArr [JStr ''Lyon'', JStr ''Nice'', JStr ''Lille'', JStr ''Paris'']),
                (''answer'', JStr ''Paris'')])"
  by code_simp

lemma loads_encoded_payload:
  "reference_loads encoded_payload =
     Inr (JObj [(''question'', JStr ''Who wrote &quot;Hamlet&quot;?''),
                (''incorrect_answers'', JArr [JStr ''Marlowe'', JStr ''Jonson'', JStr ''Kyd'']),
                (''correct_answer'', JStr ''Shakespeare'')])"
  by code_simp

section \<open>The Decision Parser\<close>

text \<open>
  Claim C1, as amended. When the model returns an output on whose text, with leading and
  trailing whitespace stripped, \<^verbatim>\<open>json.loads\<close> raises \<^verbatim>\<open>JSONDecodeError\<close>, \<^verbatim>\<open>llm_json\<close>
  returns the mapping with action \<^verbatim>\<open>final\<close> whose answer is the stripped text.
\<close>

theorem llm_json_fallback_stripped:
  assumes "chat E (llm_calls st) (history st) = Inr raw"
    and "json_loads E (strip raw) = Inl (JSONDecodeError m)"
  shows "fst (llm_json E st)
    = Inr (JObj [(''action'', JStr ''final''), (''answer'', JStr (strip raw))])"
  using assms by (simp add: llm_json_def final_decision_def)

theorem llm_json_fallback_stripped_witness:
  "chat padded_env (llm_calls dog_state) (history dog_state) = Inr '' hello '' \<and>
   json_loads padded_env (strip '' hello '')
     = Inl (JSONDecodeError ''Expecting value: line 1 column 1 (char 0)'') \<and>
   fst (llm_json padded_env dog_state)
     = Inr (JObj [(''action'', JStr ''final''), (''answer'', JStr ''hello'')])"
  using llm_json_fallback_stripped [of padded_env dog_state "'' hello ''"
      "''Expecting value: line 1 column 1 (char 0)''"] loads_hello
  by (simp add: padded_env_def reference_env_def model_says_def strip_hello)

text \<open>
  Claim C1 as stated fails: the model output \<^verbatim>\<open>" hello "\<close> is not valid JSON, and the answer
  of the decision is \<^verbatim>\<open>"hello"\<close>, not the raw output.
\<close>

theorem llm_json_raw_counterexample:
  "json_decode '' hello '' = None \<and>
   fst (llm_json padded_env dog_state)
     = Inr (JObj [(''action'', JStr ''final''), (''answer'', JStr ''hello'')]) \<and>
   fst (llm_json padded_env dog_state)
     \<noteq> Inr (JObj [(''action'', JStr ''final''), (''answer'', JStr '' hello '')])"
  using loads_hello
  by (simp add: llm_json_def padded_env_def reference_env_def model_says_def strip_hello
      decode_hello_raw final_decision_def)

text \<open>
  Claim C10. When the model output, stripped, is valid JSON but not an object,
  \<^verbatim>\<open>llm_json\<close> returns the parsed value as it is, which is no mapping, and the
  \<^verbatim>\<open>decision.get\<close> of the loop raises \<^verbatim>\<open>AttributeError\<close>, which leaves the turn. The witness
  is the output \<^verbatim>\<open>5\<close>.
\<close>

theorem non_mapping_decision_raises:
  assumes "chat E (llm_calls st) (history st) = Inr raw"
    and "json_loads E (strip raw) = Inr v"
    and "\<not> is_dict v"
  shows "fst (llm_json E st) = Inr v
    \<and> fst (loop_body E st) = Raise (AttributeError (type_name v) ''get'')
    \<and> fst (general_turn E st) = Some (AttributeError (type_name v) ''get'')"
proof -
  have a: "fst (llm_json E st) = Inr v"
    using assms(1,2) by (simp add: llm_json_def)
  have d: "llm_json E st = (Inr v, st\<lparr>llm_calls := Suc (llm_calls st)\<rparr>)"
    using llm_json_eq [of E st] a by simp
  have b: "loop_body E st =
      (Raise (AttributeError (type_name v) ''get''), st\<lparr>llm_calls := Suc (llm_calls st)\<rparr>)"
    using assms(3) by (cases v) (simp_all add: loop_body_def d)
  have c: "agent_loop E 8 st =
      (Inl (AttributeError (type_name v) ''get''), st\<lparr>llm_calls := Suc (llm_calls st)\<rparr>)"
    using agent_loop_Raise [of E st _ 8] b by simp
  show ?thesis by (simp add: a b general_turn_def c)
qed

theorem non_mapping_decision_raises_witness:
  "chat number_env (llm_calls dog_state) (history dog_state) = Inr ''5'' \<and>
   json_loads number_env (strip ''5'') = Inr (JInt 5) \<and>
   \<not> is_dict (JInt 5) \<and>
   fst (llm_json number_env dog_state) = Inr (JInt 5) \<and>
   fst (loop_body number_env dog_state) = Raise (AttributeError ''int'' ''get'') \<and>
   fst (general_turn number_env dog_state) = Some (AttributeError ''int'' ''get'')"
  using non_mapping_decision_raises [of number_env dog_state "''5''" "JInt 5"]
  by (simp add: number_env_def reference_env_def model_says_def loads_five)

section \<open>The Control Loop\<close>

text \<open>
  Claim C2. When the decision is a mapping whose action is not \<^verbatim>\<open>final\<close> and the tool name
  it gives (\<^verbatim>\<open>str(action).strip()\<close>, the empty name when there is no action) is empty or
  not among the tool names fetched at the start of the session, the pass ends with
  \<^verbatim>\<open>break\<close>: the loop ends with \<^verbatim>\<open>responded\<close> true whatever the number of passes left, the
  message \<^verbatim>\<open>Unknown tool: <name>\<close> is appended to the history as an assistant entry, and
  no invocation is sent to the Tool Host.
\<close>

theorem unknown_tool_ends_turn:
  assumes "fst (llm_json E st) = Inr (JObj kv)"
    and "map_of kv ''action'' \<noteq> Some (JStr ''final'')"
    and "tname = strip (py_str E (dict_get kv ''action'' (JStr [])))"
    and "tname = [] \<or> tname \<notin> set (tool_index st)"
  shows "loop_body E st =
           (Break, st\<lparr>llm_calls := Suc (llm_calls st),
                       history := history st @ [(Assistant, ''Unknown tool: '' @ tname)]\<rparr>)
    \<and> agent_loop E (Suc n) st = (Inr True, snd (loop_body E st))
    \<and> tool_calls (snd (loop_body E st)) = tool_calls st"
proof -
  have d: "llm_json E st = (Inr (JObj kv), st\<lparr>llm_calls := Suc (llm_calls st)\<rparr>)"
    using llm_json_eq [of E st] assms(1) by simp
  have b: "loop_body E st =
           (Break, st\<lparr>llm_calls := Suc (llm_calls st),
                       history := history st @ [(Assistant, ''Unknown tool: '' @ tname)]\<rparr>)"
    using assms(2,3,4) by (auto simp add: loop_body_def d Let_def append_history_def)
  show ?thesis by (simp add: b)
qed

theorem unknown_tool_ends_turn_witness:
  "fst (llm_json unknown_env dog_state)
     = Inr (JObj [(''action'', JStr ''dog''), (''args'', JObj [])]) \<and>
   ''dog'' \<notin> set (tool_index dog_state) \<and>
   loop_body unknown_env dog_state =
     (Break, \<lparr>tool_index = server_tools,
              history = [(User, ''show me a dog''), (Assistant, ''Unknown tool: dog'')],
              llm_calls = 1, tool_calls = []\<rparr>) \<and>
   agent_loop unknown_env 8 dog_state = (Inr True, snd (loop_body unknown_env dog_state))"
  using unknown_tool_ends_turn [of unknown_env dog_state
      "[(''action'', JStr ''dog''), (''args'', JObj [])]" "''dog''" 7] unknown_decision
  by (simp add: dict_get_def py_str_def strip_names dog_state_def start_state_def server_tools_def)

text \<open>
  Claim C3. A user turn of the general loop consults the model, through \<^verbatim>\<open>llm_json\<close>, at
  most 8 times, whatever the model and the Tool Host do.
\<close>

theorem general_turn_at_most_8_calls:
  "llm_calls (snd (general_turn E st)) \<le> llm_calls st + 8"
proof -
  obtain r st1 where a: "agent_loop E 8 st = (r, st1)"
    by (cases "agent_loop E 8 st")
  have "llm_calls st1 \<le> llm_calls st + 8"
    using agent_loop_calls [of E 8 st] a by simp
  then show ?thesis by (simp add: general_turn_def a split: sum.splits)
qed

theorem general_turn_at_most_8_calls_witness:
  "llm_calls (snd (general_turn dog_env dog_state)) \<le> 8"
  using general_turn_at_most_8_calls [of dog_env dog_state]
  by (simp add: dog_state_def start_state_def)

text \<open>
  Claim C4. When the invocation of a known tool raises an exception, the pass catches it:
  the history gets the user entry \<^verbatim>\<open>[Tool Error] Tool '<name>' failed: <message>\<close> and the
  loop goes on with its next pass. The pass does not end with the exception, so nothing
  leaves the loop or the session. (The exceptions are those of class \<^verbatim>\<open>Exception\<close>, which
  is what the handler names.)
\<close>

theorem tool_failure_continues:
  assumes "fst (llm_json E st) = Inr (JObj kv)"
    and "map_of kv ''action'' \<noteq> Some (JStr ''final'')"
    and "tname = strip (py_str E (dict_get kv ''action'' (JStr [])))"
    and "tname \<noteq> []" and "tname \<in> set (tool_index st)"
    and "args = dict_get kv ''args'' (JObj [])"
    and "call_tool E (length (tool_calls st)) tname args = Inl e"
  shows "loop_body E st =
           (Continue, st\<lparr>llm_calls := Suc (llm_calls st),
                          tool_calls := tool_calls st @ [(tname, args)],
                          history := history st @
                            [(User, ''[Tool Error] Tool '' @ apos @ tname @ apos
                                    @ '' failed: '' @ exn_str e)]\<rparr>)
    \<and> agent_loop E (Suc n) st = agent_loop E n (snd (loop_body E st))"
proof -
  have d: "llm_json E st = (Inr (JObj kv), st\<lparr>llm_calls := Suc (llm_calls st)\<rparr>)"
    using llm_json_eq [of E st] assms(1) by simp
  have b: "loop_body E st =
           (Continue, st\<lparr>llm_calls := Suc (llm_calls st),
                          tool_calls := tool_calls st @ [(tname, args)],
                          history := history st @
                            [(User, ''[Tool Error] Tool '' @ apos @ tname @ apos
                                    @ '' failed: '' @ exn_str e)]\<rparr>)"
    using assms(2-) by (auto simp add: loop_body_def d Let_def append_history_def)
  show ?thesis by (simp add: b)
qed

theorem tool_failure_continues_witness:
  "fst (llm_json failing_env dog_state)
     = Inr (JObj [(''action'', JStr ''random_dog''), (''args'', JObj [])]) \<and>
   ''random_dog'' \<in> set (tool_index dog_state) \<and>
   call_tool failing_env (length (tool_calls dog_state)) ''random_dog'' (JObj [])
     = Inl (Failure ''connection lost'') \<and>
   loop_body failing_env dog_state =
     (Continue, \<lparr>tool_index = server_tools,
                 history = [(User, ''show me a dog''),
                            (User, ''[Tool Error] Tool 'random_dog' failed: connection lost'')],
                 llm_calls = 1, tool_calls = [(''random_dog'', JObj [])]\<rparr>)"
  using tool_failure_continues [of failing_env dog_state
      "[(''action'', JStr ''random_dog''), (''args'', JObj [])]" "''random_dog''" "JObj []"
      "Failure ''connection lost''" 7] dog_decision
  by (simp add: dict_get_def py_str_def strip_names dog_state_def start_state_def
      server_tools_def failing_env_def reference_env_def host_fails_def)

text \<open>
  Claim C5, at its failing input. The model returns \<^verbatim>\<open>{"action":"random_dog","args":{}}\<close>
  and the call returns \<^verbatim>\<open>{"ok":true,"image":"<url>"}\<close>. The loop goes on, but the entry it
  appends is the generic summary \<^verbatim>\<open>Tool 'random_dog' returned: ...\<close>: the branch of
  \<^verbatim>\<open>summarize_tool_result\<close> with the dog sentence tests for the name \<^verbatim>\<open>dog\<close>, which is not
  the name under which the Tool Host registers its tool.
\<close>

theorem random_dog_generic_summary:
  "loop_body dog_env dog_state =
     (Continue,
      \<lparr>tool_index = server_tools,
       history = [(User, ''show me a dog''),
                  (User, ''[Tool Result] Tool 'random_dog' returned: {\"ok\": true, \"image\": \"https://images.dog.ceo/breeds/pug/n02110958_1.jpg\"}'')],
       llm_calls = 1, tool_calls = [(''random_dog'', JObj [])]\<rparr>) \<and>
   summarize_tool_result dog_env ''random_dog'' dog_payload \<noteq> Inr dog_summary \<and>
   summarize_tool_result dog_env ''dog'' dog_payload = Inr dog_summary"
  by code_simp

text \<open>
  Claim C7, as amended. When each of the 8 passes of the loop has a decision that is a
  tool call the loop carries out (a mapping whose action is not \<^verbatim>\<open>final\<close> and names a
  known tool, whose call fails or returns a payload that is summarized), the model has
  been consulted 8 times and the turn ends with the fixed message appended to the history
  as an assistant entry.
\<close>

theorem step_limit_message:
  assumes "tool_call_passes E 8 st"
  shows "general_turn E st =
           (None, append_history Assistant could_not_finish (snd (agent_loop E 8 st)))
    \<and> llm_calls (snd (general_turn E st)) = llm_calls st + 8
    \<and> last (history (snd (general_turn E st))) = (Assistant, could_not_finish)"
proof -
  have "fst (agent_loop E 8 st) = Inr False"
    using assms by (simp add: tool_call_passes_iff)
  then obtain st1 where a: "agent_loop E 8 st = (Inr False, st1)"
    by (cases "agent_loop E 8 st") simp
  have "llm_calls st1 = llm_calls st + 8"
    using agent_loop_exhausted_calls [of E 8 st] a by simp
  then show ?thesis by (simp add: general_turn_def a)
qed

theorem step_limit_message_witness:
  "tool_call_passes dog_env 8 dog_state \<and>
   llm_calls (snd (general_turn dog_env dog_state)) = 8 \<and>
   last (history (snd (general_turn dog_env dog_state))) =
     (Assistant, ''I tried several steps but couldn't finish your request. Could you rephrase?'')"
proof -
  have h: "tool_call_passes dog_env 8 dog_state"
    using dog_loop_exhausted by (simp add: tool_call_passes_iff)
  have z: "llm_calls dog_state = 0"
    by (simp add: dog_state_def start_state_def)
  have c: "llm_calls (snd (general_turn dog_env dog_state)) = llm_calls dog_state + 8"
    using step_limit_message [OF h] by (rule conjunct2 [THEN conjunct1])
  have l: "last (history (snd (general_turn dog_env dog_state))) = (Assistant, could_not_finish)"
    using step_limit_message [OF h] by (rule conjunct2 [THEN conjunct2])
  show ?thesis using h c l z by (simp add: could_not_finish_def)
qed

text \<open>
  Claim C7 as stated fails. The model returns seven calls of \<^verbatim>\<open>random_dog\<close> and then a
  call of the unknown tool \<^verbatim>\<open>dog\<close>: eight decisions are evaluated, none is a final answer,
  and the turn ends with \<^verbatim>\<open>Unknown tool: dog\<close>; the fixed message is not appended.
\<close>

theorem step_limit_unknown_tool_counterexample:
  "general_turn late_unknown_env dog_state =
     (None,
      \<lparr>tool_index = server_tools,
       history = (User, ''show me a dog'') #
         replicate 7 (User, ''[Tool Result] Tool 'random_dog' returned: {\"ok\": true, \"image\": \"https://images.dog.ceo/breeds/pug/n02110958_1.jpg\"}'')
         @ [(Assistant, ''Unknown tool: dog'')],
       llm_calls = 8, tool_calls = replicate 7 (''random_dog'', JObj [])\<rparr>) \<and>
   (Assistant, could_not_finish) \<notin> set (history (snd (general_turn late_unknown_env dog_state)))"
  by code_simp

section \<open>The summarizer\<close>

text \<open>
  Claim C6, as amended. For a payload that is a JSON object with a string under
  \<^verbatim>\<open>question\<close>, \<^verbatim>\<open>summarize_tool_result("trivia", payload)\<close> is \<^verbatim>\<open>Trivia question: \<close>
  followed by that string as it stands in the payload.
\<close>

theorem trivia_summary_verbatim:
  assumes "json_loads E payload = Inr (JObj kv)"
    and "map_of kv ''question'' = Some (JStr q)"
  shows "summarize_tool_result E ''trivia'' payload = Inr (''Trivia question: '' @ q)"
  using assms by (simp add: summarize_tool_result_def dict_get_def py_str_def)

theorem trivia_summary_verbatim_witness:
  "json_loads trivia_env encoded_payload =
     Inr (JObj [(''question'', JStr ''Who wrote &quot;Hamlet&quot;?''),
                (''incorrect_answers'', JArr [JStr ''Marlowe'', JStr ''Jonson'', JStr ''Kyd'']),
                (''correct_answer'', JStr ''Shakespeare'')]) \<and>
   summarize_tool_result trivia_env ''trivia'' encoded_payload
     = Inr ''Trivia question: Who wrote &quot;Hamlet&quot;?''"
  using trivia_summary_verbatim [of trivia_env encoded_payload _ "''Who wrote &quot;Hamlet&quot;?''"]
    loads_encoded_payload
  by (simp add: trivia_env_def reference_env_def)

text \<open>
  Claim C6 as stated fails: the payload has the three fields, its question holds the
  entity \<^verbatim>\<open>&quot;\<close>, and so does the summary.
\<close>

theorem trivia_summary_entities_counterexample:
  "summarize_tool_result trivia_env ''trivia'' encoded_payload
     = Inr ''Trivia question: Who wrote &quot;Hamlet&quot;?'' \<and>
   contains ''&quot;'' ''Trivia question: Who wrote &quot;Hamlet&quot;?''"
  by code_simp

section \<open>The session\<close>

text \<open>
  Claim C8. When the input line, stripped, is empty or is \<^verbatim>\<open>exit\<close> or \<^verbatim>\<open>quit\<close> in any
  mix of cases, the session ends there and its state is what it was: the model has not
  been consulted and no tool has been invoked.
\<close>

theorem exit_ends_session:
  assumes "strip line = [] \<or> lower (strip line) = ''exit'' \<or> lower (strip line) = ''quit''"
  shows "session E st (line # rest) = (None, st)"
  using assms by (auto simp add: Let_def)

theorem exit_ends_session_witness:
  "lower (strip ''  EXIT '') = ''exit'' \<and>
   session dog_env dog_state [''  EXIT '', ''show me a dog''] = (None, dog_state)"
  using exit_ends_session [of "''  EXIT ''" dog_env dog_state "[''show me a dog'']"] strip_exit
  by simp

text \<open>
  Claim C9, as amended. When the input contains \<^verbatim>\<open>trivia\<close> in any mix of cases, the turn
  does not consult the model; and when the trivia tool call returns a payload that is
  processed without an exception (it parses to a JSON object, and the listing of its
  choices raises nothing), the turn adds to the history the user's input and one user
  entry \<^verbatim>\<open>[Tool Result] Trivia question: <question>\<close>, and nothing else.
\<close>

theorem trivia_turn_history:
  assumes "contains ''trivia'' (lower user_input)"
  shows "llm_calls (snd (turn E st user_input)) = llm_calls st
    \<and> (\<forall>result kv choices.
         call_tool E (length (tool_calls st)) ''trivia'' (JObj []) = Inr result \<and>
         json_loads E (case result of Text t \<Rightarrow> t | NoText d \<Rightarrow> ''{}'') = Inr (JObj kv) \<and>
         trivia_choices kv = Inr choices \<and> set_of_choices choices = None \<longrightarrow>
         turn E st user_input =
           (None, st\<lparr>tool_calls := tool_calls st @ [(''trivia'', JObj [])],
                      history := history st @
                        [(User, user_input),
                         (User, ''[Tool Result] Trivia question: ''
                            @ py_str E (dict_get kv ''question''
                                 (JStr ''What is the meaning of life?'')))]\<rparr>))"
proof -
  let ?st1 = "append_history User user_input st"
  have t: "turn E st user_input = trivia_turn E ?st1"
    using assms by (simp add: turn_def)
  have a: "llm_calls (snd (turn E st user_input)) = llm_calls st"
    by (simp add: t trivia_turn_calls)
  have b: "turn E st user_input =
           (None, st\<lparr>tool_calls := tool_calls st @ [(''trivia'', JObj [])],
                      history := history st @
                        [(User, user_input),
                         (User, ''[Tool Result] Trivia question: ''
                            @ py_str E (dict_get kv ''question''
                                 (JStr ''What is the meaning of life?'')))]\<rparr>)"
    if c: "call_tool E (length (tool_calls st)) ''trivia'' (JObj []) = Inr result"
      and l: "json_loads E (case result of Text t \<Rightarrow> t | NoText d \<Rightarrow> ''{}'') = Inr (JObj kv)"
      and h: "trivia_choices kv = Inr choices" and s: "set_of_choices choices = None"
    for result kv choices
  proof -
    have "call_tool E (length (tool_calls ?st1)) ''trivia'' (JObj []) = Inr result"
      using c by simp
    from trivia_try_success [OF this l h s]
    show ?thesis by (simp add: t trivia_turn_def append_history_def)
  qed
  show ?thesis using a b by blast
qed

theorem trivia_turn_history_witness:
  "contains ''trivia'' (lower ''Give me a TRIVIA question'') \<and>
   call_tool trivia_env 0 ''trivia'' (JObj []) = Inr (Text trivia_payload) \<and>
   turn trivia_env (start_state server_tools []) ''Give me a TRIVIA question'' =
     (None, \<lparr>tool_index = server_tools,
             history = [(User, ''Give me a TRIVIA question''),
                        (User, ''[Tool Result] Trivia question: What is the capital of France?'')],
             llm_calls = 0, tool_calls = [(''trivia'', JObj [])]\<rparr>)"
proof -
  let ?kv = "[(''ok'', JBool True), (''question'', JStr ''What is the capital of France?''),
              (''choices'', JArr [JStr ''Lyon'', JStr ''Nice'', JStr ''Lille'', JStr ''Paris'']),
              (''answer'', JStr ''Paris'')]"
  let ?st = "start_state server_tools []"
  have c: "call_tool trivia_env (length (tool_calls ?st)) ''trivia'' (JObj [])
      = Inr (Text trivia_payload)"
    by (simp add: trivia_env_def reference_env_def host_returns_def)
  have l: "json_loads trivia_env (case Text trivia_payload of Text t \<Rightarrow> t | NoText d \<Rightarrow> ''{}'')
      = Inr (JObj ?kv)"
    using loads_trivia_payload by (simp add: trivia_env_def reference_env_def)
  have h: "trivia_choices ?kv = Inr (JArr [])"
    by (simp add: trivia_choices_def dict_get_def)
  have s: "set_of_choices (JArr []) = None"
    by (simp add: set_of_choices_def)
  have "turn trivia_env ?st ''Give me a TRIVIA question'' =
      (None, ?st\<lparr>tool_calls := tool_calls ?st @ [(''trivia'', JObj [])],
              history := history ?st @
                [(User, ''Give me a TRIVIA question''),
                 (User, ''[Tool Result] Trivia question: ''
                    @ py_str trivia_env (dict_get ?kv ''question''
                         (JStr ''What is the meaning of life?'')))]\<rparr>)"
    using trivia_turn_history [OF contains_example, of trivia_env ?st] c l h s by blast
  then show ?thesis
    using contains_example c
    by (simp add: start_state_def dict_get_def py_str_def)
qed

text \<open>
  Claim C9 as stated fails. The trivia tool call succeeds and returns the text
  \<^verbatim>\<open>Q: What is 2+2?\<close>, which is not JSON: \<^verbatim>\<open>json.loads\<close> raises inside the \<^verbatim>\<open>try\<close>, and the
  entry added after the user's input is an assistant entry.
\<close>

theorem trivia_raw_text_counterexample:
  "call_tool raw_text_env 0 ''trivia'' (JObj []) = Inr (Text ''Q: What is 2+2?'') \<and>
   turn raw_text_env (start_state server_tools []) ''trivia please'' =
     (None, \<lparr>tool_index = server_tools,
             history = [(User, ''trivia please''),
                        (Assistant, ''Oops! Trivia failed: Expecting value: line 1 column 1 (char 0)'')],
             llm_calls = 0, tool_calls = [(''trivia'', JObj [])]\<rparr>)"
  by code_simp

end
